theory Spec2Isabelle
  imports Main "HOL-Library.AList"
begin

section \<open>Text, as the scanner sees it\<close>

text \<open>
  The page body and the header values are Python \<open>str\<close> values. A \<open>string\<close> here is a
  list of code points below 256, one \<open>char\<close> per code point, so \<open>length\<close> counts what
  Python's slicing counts. On such text the case folding that \<open>re.I\<close> applies to the
  ASCII letters of the pattern table is the ASCII one.
\<close>

definition to_lower :: "char \<Rightarrow> char" where
  "to_lower c =
     (let n = (of_char c :: nat)
      in if 65 \<le> n \<and> n \<le> 90
         then (case c of Char b0 b1 b2 b3 b4 b5 b6 b7 \<Rightarrow> Char b0 b1 b2 b3 b4 True b6 b7)
         else c)"

text \<open>\<open>str.isspace\<close> on code points below 256, as \<open>str.strip()\<close> uses it.\<close>

definition is_space :: "char \<Rightarrow> bool" where
  "is_space c =
     (let n = (of_char c :: nat)
      in (9 \<le> n \<and> n \<le> 13) \<or> (28 \<le> n \<and> n \<le> 32) \<or> n = 133 \<or> n = 160)"

definition strip :: "string \<Rightarrow> string" where
  "strip s = rev (dropWhile is_space (rev (dropWhile is_space s)))"

text \<open>\<open>s.find(sub)\<close>: the lowest index where \<open>sub\<close> starts in \<open>s\<close>, or \<open>-1\<close>.\<close>

fun find_at :: "string \<Rightarrow> nat \<Rightarrow> string \<Rightarrow> int" where
  "find_at sub i [] = (if sub = [] then int i else - 1)"
| "find_at sub i (c # cs) =
     (if take (length sub) (c # cs) = sub then int i else find_at sub (Suc i) cs)"

definition str_find :: "string \<Rightarrow> string \<Rightarrow> int" where
  "str_find s sub = find_at sub 0 s"

text \<open>\<open>sub in s\<close> on strings.\<close>

definition str_contains :: "string \<Rightarrow> string \<Rightarrow> bool" where
  "str_contains s sub = (0 \<le> str_find s sub)"

text \<open>
  \<open>s[i:j]\<close> with both bounds given: a negative bound counts from the end, and both are
  clipped to the string.
\<close>

definition slice_bound :: "nat \<Rightarrow> int \<Rightarrow> nat" where
  "slice_bound n i = (if i < 0 then nat (int n + i) else min n (nat i))"

definition py_slice :: "string \<Rightarrow> int \<Rightarrow> int \<Rightarrow> string" where
  "py_slice s i j =
     (let lo = slice_bound (length s) i; hi = slice_bound (length s) j
      in take (hi - lo) (drop lo s))"

section \<open>The fragment of \<open>re\<close> that the pattern tables use\<close>

text \<open>
  Every pattern of the tables is built from literal characters, the dot, concatenation,
  alternation and at most one capturing group, and is compiled with \<open>re.I\<close>. The
  matcher lists the ways a pattern can match at the start of a string in the order in
  which the backtracking engine tries them; the first one is the match that \<open>re\<close>
  reports. Each entry is the matched text, the text captured by the group (if the group
  took part) and the rest of the string. No pattern of this fragment matches the empty
  string.
\<close>

datatype regex =
    Chr char
  | Dot
  | Cat regex regex
  | Alt regex regex
  | Group regex

fun rmatch :: "regex \<Rightarrow> string \<Rightarrow> (string \<times> string option \<times> string) list" where
  "rmatch (Chr c) s =
     (case s of [] \<Rightarrow> []
      | x # xs \<Rightarrow> if to_lower x = to_lower c then [([x], None, xs)] else [])"
| "rmatch Dot s =
     (case s of [] \<Rightarrow> []
      | x # xs \<Rightarrow> if x \<noteq> CHR 0x0A then [([x], None, xs)] else [])"
| "rmatch (Cat a b) s =
     concat (map (\<lambda>(m1, g1, r1).
        map (\<lambda>(m2, g2, r2). (m1 @ m2, (case g2 of None \<Rightarrow> g1 | Some g \<Rightarrow> Some g), r2))
          (rmatch b r1)) (rmatch a s))"
| "rmatch (Alt a b) s = rmatch a s @ rmatch b s"
| "rmatch (Group a) s = map (\<lambda>(m, g, r). (m, Some m, r)) (rmatch a s)"

definition match_at :: "regex \<Rightarrow> string \<Rightarrow> (string \<times> string option) option" where
  "match_at r s = (case rmatch r s of [] \<Rightarrow> None | (m, g, rest) # _ \<Rightarrow> Some (m, g))"

text \<open>A match object: \<open>m.start()\<close>, \<open>m.group()\<close> and the group's capture.\<close>

record re_match =
  m_start :: nat
  m_group :: string
  m_capture :: "string option"

definition m_end :: "re_match \<Rightarrow> nat" where
  "m_end m = m_start m + length (m_group m)"

text \<open>\<open>pattern.search(s)\<close>: the match at the lowest position that has one.\<close>

fun search_from :: "regex \<Rightarrow> nat \<Rightarrow> string \<Rightarrow> re_match option" where
  "search_from r i [] = None"
| "search_from r i (c # cs) =
     (case match_at r (c # cs) of
        Some (m, g) \<Rightarrow> Some \<lparr>m_start = i, m_group = m, m_capture = g\<rparr>
      | None \<Rightarrow> search_from r (Suc i) cs)"

definition search :: "regex \<Rightarrow> string \<Rightarrow> re_match option" where
  "search r s = search_from r 0 s"

text \<open>
  \<open>pattern.findall(s)\<close>: the matches from left to right, none overlapping an earlier one.
  A pattern with a group yields the group's capture for each match, the empty string
  when the group took no part; a pattern without a group yields the matched text.
\<close>

fun has_group :: "regex \<Rightarrow> bool" where
  "has_group (Chr c) = False"
| "has_group Dot = False"
| "has_group (Cat a b) = (has_group a \<or> has_group b)"
| "has_group (Alt a b) = (has_group a \<or> has_group b)"
| "has_group (Group a) = True"

definition findall_item :: "regex \<Rightarrow> string \<Rightarrow> string option \<Rightarrow> string" where
  "findall_item r m g =
     (if has_group r then (case g of None \<Rightarrow> [] | Some x \<Rightarrow> x) else m)"

text \<open>
  The counter is the number of characters still covered by the last match: the scan
  resumes where that match ended.
\<close>

fun findall_skip :: "regex \<Rightarrow> nat \<Rightarrow> string \<Rightarrow> string list" where
  "findall_skip r k [] = []"
| "findall_skip r (Suc k) (c # cs) = findall_skip r k cs"
| "findall_skip r 0 (c # cs) =
     (case match_at r (c # cs) of
        None \<Rightarrow> findall_skip r 0 cs
      | Some (m, g) \<Rightarrow> findall_item r m g # findall_skip r (length m - 1) cs)"

definition findall :: "regex \<Rightarrow> string \<Rightarrow> string list" where
  "findall r s = findall_skip r 0 s"

text \<open>A literal word as a pattern; the word is never empty in the tables.\<close>

fun lit :: "string \<Rightarrow> regex" where
  "lit [] = Dot"
| "lit [c] = Chr c"
| "lit (c # cs) = Cat (Chr c) (lit cs)"

section \<open>The pattern tables\<close>

text \<open>
  The class attributes of \<open>WebsiteTechnologyScanner\<close>, the same in \<open>main.py\<close> and
  \<open>v2.py\<close>. A Python \<open>dict\<close> iterates in insertion order, so each table is the list of
  its items in the order of declaration.
\<close>

definition TECHNOLOGIES :: "(string \<times> regex) list" where
  "TECHNOLOGIES =
     [(''WordPress'', Alt (lit ''wp-content'') (lit ''wordpress'')),
      (''Django'', Alt (lit ''csrfmiddlewaretoken'') (lit ''django'')),
      (''Flask'', Alt (lit ''flask-session'') (lit ''flask'')),
      (''Ruby on Rails'', Alt (lit ''ruby'') (lit ''rails'')),
      (''Laravel'', Alt (lit ''laravel'') (lit ''php artisan'')),
      (''Next.js'', Alt (lit ''nextjs'') (lit ''_next'')),
      (''React'', Alt (lit ''react'') (lit ''react-dom'')),
      (''Vue.js'', Alt (lit ''vuejs'') (lit ''vue-router'')),
      (''CS-Cart'',
         Alt (lit ''cscart'') (Cat (lit ''var/'') (Group (Alt (lit ''cache'') (lit ''compiled''))))),
      (''Bitrix'', Alt (lit ''bitrix'') (lit ''bxcore''))]"

definition WEB_SERVERS :: "(string \<times> regex) list" where
  "WEB_SERVERS =
     [(''nginx'', lit ''nginx''),
      (''Apache'', lit ''apache''),
      (''LiteSpeed'', lit ''LiteSpeed'')]"

definition BACKEND_LANGUAGES :: "(string \<times> regex) list" where
  "BACKEND_LANGUAGES =
     [(''PHP'', lit ''php''),
      (''Python'', lit ''python''),
      (''Ruby'', lit ''ruby''),
      (''Node.js'', Alt (Cat (lit ''node'') (Cat Dot (lit ''js''))) (lit ''javascript''))]"

section \<open>The scanner and what it prints\<close>

text \<open>
  \<open>self.results\<close> is a \<open>dict\<close> from a category name to either a string (the web server)
  or a \<open>dict\<close> of strings (a detection). Both are kept as association lists in insertion
  order; \<open>d[k] = v\<close> is \<open>AList.update\<close>, which overwrites in place or appends.
\<close>

datatype pyval = Str string | Dict "(string \<times> string) list"

text \<open>
  The console: a line printed through \<open>Messages\<close> is its level and its message (the
  timestamp and the colour codes are left out), and \<open>print(json.dumps(self.results))\<close>
  is the dictionary it serialises. \<open>info\<close>, \<open>warn\<close>, \<open>error\<close>, \<open>success\<close> and \<open>banner\<close>
  are the static methods of class \<open>Messages\<close> in \<open>Messages.py\<close>. \<open>v2.py\<close> reaches
  them through \<open>from Messages import Messages\<close>, which binds the name to the class;
  what \<open>main.py\<close> reaches instead is the subject of a section of its own.
\<close>

datatype level = INFO | WARN | ERROR | SUCCESS

datatype printed = Banner | Log level string | Print_json "(string \<times> pyval) list"

record scanner =
  url :: string
  verbose :: bool
  output_json :: bool
  results :: "(string \<times> pyval) list"
  console :: "printed list"

text \<open>\<open>__init__\<close>; the console starts empty.\<close>

definition init :: "string \<Rightarrow> bool \<Rightarrow> bool \<Rightarrow> scanner" where
  "init u v j = \<lparr>url = u, verbose = v, output_json = j, results = [], console = []\<rparr>"

definition emit :: "printed \<Rightarrow> scanner \<Rightarrow> scanner" where
  "emit x s = s\<lparr>console := console s @ [x]\<rparr>"

definition info :: "string \<Rightarrow> scanner \<Rightarrow> scanner" where
  "info msg = emit (Log INFO msg)"

definition warn :: "string \<Rightarrow> scanner \<Rightarrow> scanner" where
  "warn msg = emit (Log WARN msg)"

definition error :: "string \<Rightarrow> scanner \<Rightarrow> scanner" where
  "error msg = emit (Log ERROR msg)"

definition success :: "string \<Rightarrow> scanner \<Rightarrow> scanner" where
  "success msg = emit (Log SUCCESS msg)"

definition banner :: "scanner \<Rightarrow> scanner" where
  "banner = emit Banner"

definition set_result :: "string \<Rightarrow> pyval \<Rightarrow> scanner \<Rightarrow> scanner" where
  "set_result k v s = s\<lparr>results := AList.update k v (results s)\<rparr>"

section \<open>Fetching, in \<open>v2.py\<close>\<close>

text \<open>
  \<open>requests.get(...)\<close> followed by \<open>response.raise_for_status()\<close> is the one call to
  the outside: it either raises a \<open>RequestException\<close> (connection error, timeout, or the
  \<open>HTTPError\<close> of an error status), given here by its text, or leaves a response with
  its decoded body and its headers.
\<close>

record response =
  body :: string
  headers :: "(string \<times> string) list"

datatype get_result = Raised string | Returned response

text \<open>
  \<open>response.headers.get(name, default)\<close>: the header mapping of \<open>requests\<close> compares
  names without regard to case.
\<close>

fun headers_get :: "(string \<times> string) list \<Rightarrow> string \<Rightarrow> string \<Rightarrow> string" where
  "headers_get [] name dflt = dflt"
| "headers_get ((k, v) # rest) name dflt =
     (if map to_lower k = map to_lower name then v else headers_get rest name dflt)"

text \<open>\<open>detect_web_server\<close> of \<open>v2.py\<close> (lines 118 to 126).\<close>

fun detect_web_server_loop :: "(string \<times> regex) list \<Rightarrow> string \<Rightarrow> scanner \<Rightarrow> scanner" where
  "detect_web_server_loop [] server_info s = warn ''No known web server detected.'' s"
| "detect_web_server_loop ((server, pattern) # rest) server_info s =
     (if search pattern server_info \<noteq> None
      then set_result ''Web Server'' (Str server)
             (success (''Detected web server: '' @ server) s)
      else detect_web_server_loop rest server_info s)"

definition detect_web_server :: "string \<Rightarrow> scanner \<Rightarrow> scanner" where
  "detect_web_server server_info s =
     detect_web_server_loop WEB_SERVERS server_info
       (info ''Analyzing web server information.'' s)"

text \<open>
  \<open>fetch_website\<close> of \<open>v2.py\<close> (lines 46 to 61). It returns the pair
  \<open>(response.text, response.headers)\<close>, or \<open>(None, None)\<close> after an exception, which is
  \<open>None\<close> here.
\<close>

definition fetch_website ::
  "get_result \<Rightarrow> scanner \<Rightarrow> (string \<times> (string \<times> string) list) option \<times> scanner" where
  "fetch_website outcome s =
     (let s1 = (if verbose s then info (''Fetching content from '' @ url s) s else s)
      in case outcome of
           Raised e \<Rightarrow> (None, error (''Connection error: '' @ e) s1)
         | Returned resp \<Rightarrow>
             (let server = headers_get (headers resp) ''Server'' ''Unknown'';
                  s2 = (if verbose s1 then success (''Web Server: '' @ server) s1 else s1);
                  s3 = set_result ''Web Server'' (Str server) s2;
                  s4 = detect_web_server server s3
              in (Some (body resp, headers resp), s4)))"

section \<open>Header values\<close>

text \<open>
  Two expressions over \<open>headers.values()\<close> that the backend detectors of both files
  share.
\<close>

text \<open>\<open>any(pattern.search(value) for value in headers.values())\<close>\<close>

definition header_match :: "regex \<Rightarrow> (string \<times> string) list \<Rightarrow> bool" where
  "header_match pattern hdrs = list_ex (\<lambda>value. search pattern value \<noteq> None) (map snd hdrs)"

text \<open>\<open>next((value for value in headers.values() if pattern.search(value)), "Unknown")\<close>\<close>

definition first_header_value :: "regex \<Rightarrow> (string \<times> string) list \<Rightarrow> string" where
  "first_header_value pattern hdrs =
     (case List.find (\<lambda>value. search pattern value \<noteq> None) (map snd hdrs) of
        Some value \<Rightarrow> value
      | None \<Rightarrow> ''Unknown'')"

section \<open>Reporting, in \<open>v2.py\<close>\<close>

text \<open>
  The exceptions that leave a function of the scanner: \<open>value['name']\<close> raises
  \<open>KeyError\<close> on a detection without that key, and a name that a module does not have
  raises \<open>AttributeError\<close>.
\<close>

datatype py_error = KeyError string | AttributeError string

text \<open>The loop over \<open>self.results.items()\<close> at the end of \<open>run\<close>.\<close>

fun report_results :: "(string \<times> pyval) list \<Rightarrow> scanner \<Rightarrow> py_error + scanner" where
  "report_results [] s = Inr s"
| "report_results ((key, Str v) # rest) s =
     report_results rest (success (key @ '': '' @ v) s)"
| "report_results ((key, Dict d) # rest) s =
     (case map_of d ''name'' of
        None \<Rightarrow> Inl (KeyError ''name'')
      | Some n \<Rightarrow>
          (case map_of d ''detected_by'' of
             None \<Rightarrow> Inl (KeyError ''detected_by'')
           | Some by \<Rightarrow>
               report_results rest
                 (success (key @ '': '' @ n @ '' (Detected by: '' @ by @ '')'') s)))"

text \<open>From \<open>if self.results:\<close> to the end of \<open>run\<close>.\<close>

definition report :: "scanner \<Rightarrow> py_error + scanner" where
  "report s =
     (case (if results s \<noteq> []
            then report_results (results s) (info ''Scan results:'' s)
            else Inr (warn ''No technologies detected.'' s)) of
        Inl e \<Rightarrow> Inl e
      | Inr s1 \<Rightarrow>
          Inr (info ''Scan completed.''
                 (if output_json s1 then emit (Print_json (results s1)) s1 else s1)))"

section \<open>The detectors of \<open>v2.py\<close>\<close>

definition related_keywords :: "(string \<times> string list) list" where
  "related_keywords =
     [(''WordPress'', [''wp-content'', ''wp-includes'']),
      (''Django'', [''csrfmiddlewaretoken'']),
      (''Flask'', [''flask-session'']),
      (''React'', [''react-dom'', ''jsx''])]"

definition is_valid_context :: "string \<Rightarrow> string \<Rightarrow> bool" where
  "is_valid_context context tech =
     list_ex (\<lambda>keyword. str_contains context keyword)
       (case map_of related_keywords tech of None \<Rightarrow> [] | Some ks \<Rightarrow> ks)"

text \<open>\<open>html[max(0, html.find(match) - 50):html.find(match) + 50]\<close>\<close>

definition find_context :: "string \<Rightarrow> string \<Rightarrow> string" where
  "find_context html match =
     py_slice html (max 0 (str_find html match - 50)) (str_find html match + 50)"

text \<open>
  The inner loop over \<open>matches\<close>: the first match whose context is valid, with that
  context.
\<close>

fun first_valid_match :: "string \<Rightarrow> string \<Rightarrow> string list \<Rightarrow> (string \<times> string) option" where
  "first_valid_match tech html [] = None"
| "first_valid_match tech html (match # rest) =
     (let context = find_context html match
      in if is_valid_context context tech then Some (match, context)
         else first_valid_match tech html rest)"

fun identify_technology_with_context_loop ::
  "(string \<times> regex) list \<Rightarrow> string \<Rightarrow> scanner \<Rightarrow> scanner" where
  "identify_technology_with_context_loop [] html s =
     warn ''No frontend technologies detected.'' s"
| "identify_technology_with_context_loop ((tech, pattern) # rest) html s =
     (case first_valid_match tech html (findall pattern html) of
        Some (match, context) \<Rightarrow>
          set_result ''Frontend'' (Dict [(''name'', tech), (''detected_by'', match)])
            (success (''Detected Frontend: '' @ tech @ '' (Context: '' @ strip context @ '')'') s)
      | None \<Rightarrow> identify_technology_with_context_loop rest html s)"

definition identify_technology_with_context :: "string \<Rightarrow> scanner \<Rightarrow> scanner" where
  "identify_technology_with_context html s =
     identify_technology_with_context_loop TECHNOLOGIES html
       (info ''Analyzing website content for technologies.'' s)"

text \<open>\<open>html[max(0, match_html.start() - 50):match_html.end() + 50]\<close>\<close>

definition match_context :: "string \<Rightarrow> re_match \<Rightarrow> string" where
  "match_context html m = py_slice html (max 0 (int (m_start m) - 50)) (int (m_end m) + 50)"

text \<open>
  The first \<open>if\<close> of the loop body of \<open>identify_backend_language_with_context\<close>: the
  context of a body match that is valid for the language, if there is one.
\<close>

definition valid_body_context :: "string \<Rightarrow> regex \<Rightarrow> string \<Rightarrow> string option" where
  "valid_body_context lang pattern html =
     (case search pattern html of
        None \<Rightarrow> None
      | Some m \<Rightarrow>
          (let context = match_context html m
           in if is_valid_context context lang then Some context else None))"

fun identify_backend_language_with_context_loop ::
  "(string \<times> regex) list \<Rightarrow> string \<Rightarrow> (string \<times> string) list \<Rightarrow> scanner \<Rightarrow> scanner" where
  "identify_backend_language_with_context_loop [] html hdrs s =
     warn ''No backend language detected.'' s"
| "identify_backend_language_with_context_loop ((lang, pattern) # rest) html hdrs s =
     (case valid_body_context lang pattern html of
        Some context \<Rightarrow>
          set_result ''Backend Language''
            (Dict [(''name'', lang), (''detected_by'', strip context)])
            (success (''Detected Backend Language: '' @ lang @ '' (Context: ''
                        @ strip context @ '')'') s)
      | None \<Rightarrow>
          if header_match pattern hdrs
          then set_result ''Backend Language''
                 (Dict [(''name'', lang), (''detected_by'', ''Headers'')])
                 (success (''Detected Backend Language: '' @ lang @ '' (Header: ''
                             @ first_header_value pattern hdrs @ '')'') s)
          else identify_backend_language_with_context_loop rest html hdrs s)"

definition identify_backend_language_with_context ::
  "string \<Rightarrow> (string \<times> string) list \<Rightarrow> scanner \<Rightarrow> scanner" where
  "identify_backend_language_with_context html hdrs s =
     identify_backend_language_with_context_loop BACKEND_LANGUAGES html hdrs
       (info ''Analyzing website headers and content for backend language.'' s)"

text \<open>\<open>run\<close> of \<open>v2.py\<close>.\<close>

definition run_v2 :: "get_result \<Rightarrow> scanner \<Rightarrow> py_error + scanner" where
  "run_v2 outcome s =
     (let s1 = info (''Starting scan for website: '' @ url s) (banner s);
          (fetched, s2) = fetch_website outcome s1
      in case fetched of
           None \<Rightarrow> Inr (warn ''Failed to retrieve website content.'' s2)
         | Some (html_content, hdrs) \<Rightarrow>
             if html_content = []
             then Inr (warn ''Failed to retrieve website content.'' s2)
             else report (identify_backend_language_with_context html_content hdrs
                            (identify_technology_with_context html_content s2)))"

section \<open>\<open>main.py\<close> as shipped\<close>

text \<open>
  \<open>main.py\<close> has the tables, \<open>__init__\<close>, \<open>fetch_website\<close>, \<open>detect_web_server\<close> and
  the reporting of \<open>v2.py\<close> word for word, and the two detectors \<open>identify_technology\<close>
  and \<open>identify_backend_language\<close> of its own. Its fifth line is \<open>import Messages\<close>,
  which binds the name \<open>Messages\<close> to the module \<open>Messages.py\<close>, not to the class of
  that name inside it. The module has the attributes \<open>datetime\<close> and \<open>Messages\<close> and no
  other, so in \<open>main.py\<close> each of \<open>Messages.info\<close>, \<open>Messages.warn\<close>,
  \<open>Messages.error\<close>, \<open>Messages.success\<close> and \<open>Messages.banner\<close> raises
  \<open>AttributeError\<close> when the attribute is looked up: the argument of the call is not
  evaluated and nothing is printed. Nothing in \<open>main.py\<close> catches the exception
  (\<open>except requests.RequestException\<close> does not), so it leaves each function on the way
  out; it is given here with the scanner as it was at that moment.
\<close>

definition module_attribute :: "string \<Rightarrow> scanner \<Rightarrow> (py_error \<times> scanner) + scanner" where
  "module_attribute name s = Inl (AttributeError name, s)"

text \<open>\<open>detect_web_server\<close> of \<open>main.py\<close> (lines 63 to 71).\<close>

fun main_detect_web_server_loop ::
  "(string \<times> regex) list \<Rightarrow> string \<Rightarrow> scanner \<Rightarrow> (py_error \<times> scanner) + scanner" where
  "main_detect_web_server_loop [] server_info s = module_attribute ''warn'' s"
| "main_detect_web_server_loop ((server, pattern) # rest) server_info s =
     (if search pattern server_info \<noteq> None
      then (case module_attribute ''success'' s of
              Inl e \<Rightarrow> Inl e
            | Inr s1 \<Rightarrow> Inr (set_result ''Web Server'' (Str server) s1))
      else main_detect_web_server_loop rest server_info s)"

definition main_detect_web_server :: "string \<Rightarrow> scanner \<Rightarrow> (py_error \<times> scanner) + scanner" where
  "main_detect_web_server server_info s =
     (case module_attribute ''info'' s of
        Inl e \<Rightarrow> Inl e
      | Inr s1 \<Rightarrow> main_detect_web_server_loop WEB_SERVERS server_info s1)"

text \<open>
  \<open>fetch_website\<close> of \<open>main.py\<close> (lines 46 to 61). The handler of the \<open>try\<close> takes a
  \<open>RequestException\<close> only, and itself begins with \<open>Messages.error\<close>.
\<close>

definition main_fetch_website ::
  "get_result \<Rightarrow> scanner
   \<Rightarrow> (py_error \<times> scanner) + ((string \<times> (string \<times> string) list) option \<times> scanner)" where
  "main_fetch_website outcome s =
     (case (if verbose s then module_attribute ''info'' s else Inr s) of
        Inl e \<Rightarrow> Inl e
      | Inr s1 \<Rightarrow>
          (case outcome of
             Raised e \<Rightarrow>
               (case module_attribute ''error'' s1 of
                  Inl e \<Rightarrow> Inl e
                | Inr s2 \<Rightarrow> Inr (None, s2))
           | Returned resp \<Rightarrow>
               (let server = headers_get (headers resp) ''Server'' ''Unknown''
                in case (if verbose s1 then module_attribute ''success'' s1 else Inr s1) of
                     Inl e \<Rightarrow> Inl e
                   | Inr s2 \<Rightarrow>
                       (case main_detect_web_server server
                               (set_result ''Web Server'' (Str server) s2) of
                          Inl e \<Rightarrow> Inl e
                        | Inr s4 \<Rightarrow> Inr (Some (body resp, headers resp), s4)))))"

text \<open>
  \<open>identify_technology\<close> (lines 73 to 83). The loop body records a match and goes on
  to the next technology; there is no \<open>return\<close> in it.
\<close>

fun identify_technology_loop ::
  "(string \<times> regex) list \<Rightarrow> string \<Rightarrow> scanner \<Rightarrow> (py_error \<times> scanner) + scanner" where
  "identify_technology_loop [] html s = Inr s"
| "identify_technology_loop ((tech, pattern) # rest) html s =
     (case search pattern html of
        None \<Rightarrow> identify_technology_loop rest html s
      | Some m \<Rightarrow>
          (case module_attribute ''success'' s of
             Inl e \<Rightarrow> Inl e
           | Inr s1 \<Rightarrow>
               identify_technology_loop rest html
                 (set_result ''Frontend'' (Dict [(''name'', tech), (''detected_by'', m_group m)])
                    s1)))"

definition identify_technology :: "string \<Rightarrow> scanner \<Rightarrow> (py_error \<times> scanner) + scanner" where
  "identify_technology html s =
     (case module_attribute ''info'' s of
        Inl e \<Rightarrow> Inl e
      | Inr s1 \<Rightarrow> identify_technology_loop TECHNOLOGIES html s1)"

text \<open>\<open>identify_backend_language\<close> (lines 85 to 103).\<close>

fun identify_backend_language_loop ::
  "(string \<times> regex) list \<Rightarrow> string \<Rightarrow> (string \<times> string) list \<Rightarrow> scanner
   \<Rightarrow> (py_error \<times> scanner) + scanner" where
  "identify_backend_language_loop [] html hdrs s = module_attribute ''warn'' s"
| "identify_backend_language_loop ((lang, pattern) # rest) html hdrs s =
     (let match_html = search pattern html;
          match_header = header_match pattern hdrs
      in if match_html \<noteq> None \<or> match_header
         then (let source = (if match_html \<noteq> None then ''HTML'' else ''Headers'');
                   match_value = (case match_html of
                                    Some m \<Rightarrow> m_group m
                                  | None \<Rightarrow> first_header_value pattern hdrs)
               in case module_attribute ''success'' s of
                    Inl e \<Rightarrow> Inl e
                  | Inr s1 \<Rightarrow>
                      Inr (set_result ''Backend Language''
                             (Dict [(''name'', lang), (''source'', source),
                                    (''detected_by'', match_value)]) s1))
         else identify_backend_language_loop rest html hdrs s)"

definition identify_backend_language ::
  "string \<Rightarrow> (string \<times> string) list \<Rightarrow> scanner \<Rightarrow> (py_error \<times> scanner) + scanner" where
  "identify_backend_language html hdrs s =
     (case module_attribute ''info'' s of
        Inl e \<Rightarrow> Inl e
      | Inr s1 \<Rightarrow> identify_backend_language_loop BACKEND_LANGUAGES html hdrs s1)"

text \<open>
  The reporting of \<open>run\<close> (lines 118 to 130). \<open>Messages.success\<close> is looked up before
  \<open>value['name']\<close> is.
\<close>

fun main_report_results ::
  "(string \<times> pyval) list \<Rightarrow> scanner \<Rightarrow> (py_error \<times> scanner) + scanner" where
  "main_report_results [] s = Inr s"
| "main_report_results ((key, Str v) # rest) s =
     (case module_attribute ''success'' s of
        Inl e \<Rightarrow> Inl e
      | Inr s1 \<Rightarrow> main_report_results rest s1)"
| "main_report_results ((key, Dict d) # rest) s =
     (case module_attribute ''success'' s of
        Inl e \<Rightarrow> Inl e
      | Inr s1 \<Rightarrow>
          (case map_of d ''name'' of
             None \<Rightarrow> Inl (KeyError ''name'', s1)
           | Some n \<Rightarrow>
               (case map_of d ''detected_by'' of
                  None \<Rightarrow> Inl (KeyError ''detected_by'', s1)
                | Some by \<Rightarrow> main_report_results rest s1)))"

definition main_report :: "scanner \<Rightarrow> (py_error \<times> scanner) + scanner" where
  "main_report s =
     (case (if results s \<noteq> []
            then (case module_attribute ''info'' s of
                    Inl e \<Rightarrow> Inl e
                  | Inr s0 \<Rightarrow> main_report_results (results s0) s0)
            else module_attribute ''warn'' s) of
        Inl e \<Rightarrow> Inl e
      | Inr s1 \<Rightarrow>
          module_attribute ''info''
            (if output_json s1 then emit (Print_json (results s1)) s1 else s1))"

text \<open>
  \<open>run\<close> of \<open>main.py\<close> (lines 105 to 130); \<open>Messages.banner()\<close> is its first
  statement.
\<close>

definition run :: "get_result \<Rightarrow> scanner \<Rightarrow> (py_error \<times> scanner) + scanner" where
  "run outcome s =
     (case module_attribute ''banner'' s of
        Inl e \<Rightarrow> Inl e
      | Inr s0 \<Rightarrow>
          (case module_attribute ''info'' s0 of
             Inl e \<Rightarrow> Inl e
           | Inr s1 \<Rightarrow>
               (case main_fetch_website outcome s1 of
                  Inl e \<Rightarrow> Inl e
                | Inr (fetched, s2) \<Rightarrow>
                    (case fetched of
                       None \<Rightarrow> module_attribute ''warn'' s2
                     | Some (html_content, hdrs) \<Rightarrow>
                         if html_content = []
                         then module_attribute ''warn'' s2
                         else (case identify_technology html_content s2 of
                                 Inl e \<Rightarrow> Inl e
                               | Inr s3 \<Rightarrow>
                                   (case identify_backend_language html_content hdrs s3 of
                                      Inl e \<Rightarrow> Inl e
                                    | Inr s4 \<Rightarrow> main_report s4))))))"

section \<open>What a scan leaves behind\<close>

text \<open>The dictionaries that were printed as JSON, in the order of printing.\<close>

fun json_lines :: "printed list \<Rightarrow> (string \<times> pyval) list list" where
  "json_lines [] = []"
| "json_lines (Print_json r # rest) = r # json_lines rest"
| "json_lines (Banner # rest) = json_lines rest"
| "json_lines (Log l msg # rest) = json_lines rest"

definition printed_json :: "scanner \<Rightarrow> (string \<times> pyval) list list" where
  "printed_json s = json_lines (console s)"

text \<open>The keys of a recorded value, in order; a plain string has none.\<close>

fun detection_keys :: "pyval \<Rightarrow> string list" where
  "detection_keys (Str v) = []"
| "detection_keys (Dict d) = map fst d"

text \<open>
  A results dictionary that the reporting loop reads without \<open>KeyError\<close>: every detection
  in it has a \<open>name\<close> and a \<open>detected_by\<close>.
\<close>

fun reportable :: "pyval \<Rightarrow> bool" where
  "reportable (Str v) = True"
| "reportable (Dict d) = (map_of d ''name'' \<noteq> None \<and> map_of d ''detected_by'' \<noteq> None)"

text \<open>A label is covered when \<open>related_keywords\<close> has an entry for it.\<close>

definition covered :: "string \<Rightarrow> bool" where
  "covered tech = (map_of related_keywords tech \<noteq> None)"

definition covered_labels :: "(string \<times> regex) list \<Rightarrow> string list" where
  "covered_labels table = filter covered (map fst table)"


text \<open>
  The labels of a table whose pattern is found in a text, in table order, each with the
  text of its match (\<open>match.group()\<close>).
\<close>

definition matching :: "(string \<times> regex) list \<Rightarrow> string \<Rightarrow> (string \<times> string) list" where
  "matching table html =
     List.map_filter
       (\<lambda>(tech, pattern). map_option (\<lambda>m. (tech, m_group m)) (search pattern html)) table"

section \<open>Bookkeeping\<close>

lemma results_emit [simp]: "results (emit x s) = results s"
  by (simp add: emit_def)

lemma results_messages [simp]:
  "results (info msg s) = results s"
  "results (warn msg s) = results s"
  "results (error msg s) = results s"
  "results (success msg s) = results s"
  "results (banner s) = results s"
  by (simp_all add: info_def warn_def error_def success_def banner_def)

lemma results_set_result [simp]:
  "results (set_result k v s) = AList.update k v (results s)"
  by (simp add: set_result_def)

lemma flags_emit [simp]:
  "verbose (emit x s) = verbose s" "output_json (emit x s) = output_json s" "url (emit x s) = url s"
  by (simp_all add: emit_def)

lemma flags_messages [simp]:
  "verbose (info msg s) = verbose s" "output_json (info msg s) = output_json s"
  "verbose (warn msg s) = verbose s" "output_json (warn msg s) = output_json s"
  "verbose (error msg s) = verbose s" "output_json (error msg s) = output_json s"
  "verbose (success msg s) = verbose s" "output_json (success msg s) = output_json s"
  "verbose (banner s) = verbose s" "output_json (banner s) = output_json s"
  by (simp_all add: info_def warn_def error_def success_def banner_def)

lemma flags_set_result [simp]:
  "verbose (set_result k v s) = verbose s" "output_json (set_result k v s) = output_json s"
  by (simp_all add: set_result_def)

lemma json_lines_append [simp]: "json_lines (xs @ ys) = json_lines xs @ json_lines ys"
  by (induction xs rule: json_lines.induct) simp_all

lemma printed_json_emit [simp]:
  "printed_json (emit (Print_json r) s) = printed_json s @ [r]"
  "printed_json (emit (Log l msg) s) = printed_json s"
  "printed_json (emit Banner s) = printed_json s"
  by (simp_all add: printed_json_def emit_def)

lemma printed_json_messages [simp]:
  "printed_json (info msg s) = printed_json s"
  "printed_json (warn msg s) = printed_json s"
  "printed_json (error msg s) = printed_json s"
  "printed_json (success msg s) = printed_json s"
  "printed_json (banner s) = printed_json s"
  by (simp_all add: info_def warn_def error_def success_def banner_def)

lemma printed_json_set_result [simp]: "printed_json (set_result k v s) = printed_json s"
  by (simp add: set_result_def printed_json_def)

lemma init_fields [simp]:
  "results (init u v j) = []" "printed_json (init u v j) = []"
  "verbose (init u v j) = v" "output_json (init u v j) = j" "url (init u v j) = u"
  by (simp_all add: init_def printed_json_def)

section \<open>The loops, as searches through their tables\<close>

lemma detect_web_server_loop_results:
  "results (detect_web_server_loop table server_info s) =
     (case List.find (\<lambda>(server, pattern). search pattern server_info \<noteq> None) table of
        None \<Rightarrow> results s
      | Some (server, pattern) \<Rightarrow> AList.update ''Web Server'' (Str server) (results s))"
  by (induction table server_info s rule: detect_web_server_loop.induct) simp_all

lemma detect_web_server_loop_json [simp]:
  "printed_json (detect_web_server_loop table server_info s) = printed_json s"
  by (induction table server_info s rule: detect_web_server_loop.induct) simp_all

lemma detect_web_server_loop_flags [simp]:
  "verbose (detect_web_server_loop table server_info s) = verbose s"
  "output_json (detect_web_server_loop table server_info s) = output_json s"
  by (induction table server_info s rule: detect_web_server_loop.induct) simp_all

lemma identify_backend_language_with_context_loop_results:
  "results (identify_backend_language_with_context_loop table html hdrs s) =
     (case List.find (\<lambda>(lang, pattern).
               valid_body_context lang pattern html \<noteq> None \<or> header_match pattern hdrs) table of
        None \<Rightarrow> results s
      | Some (lang, pattern) \<Rightarrow>
          AList.update ''Backend Language''
            (Dict [(''name'', lang),
                   (''detected_by'',
                      case valid_body_context lang pattern html of
                        Some context \<Rightarrow> strip context
                      | None \<Rightarrow> ''Headers'')])
            (results s))"
  by (induction table html hdrs s rule: identify_backend_language_with_context_loop.induct)
     (auto split: option.splits)

lemma identify_backend_language_with_context_loop_json [simp]:
  "printed_json (identify_backend_language_with_context_loop table html hdrs s) = printed_json s"
  by (induction table html hdrs s rule: identify_backend_language_with_context_loop.induct)
     (simp_all split: option.splits)

lemma identify_backend_language_with_context_loop_flags [simp]:
  "output_json (identify_backend_language_with_context_loop table html hdrs s) = output_json s"
  by (induction table html hdrs s rule: identify_backend_language_with_context_loop.induct)
     (simp_all split: option.splits)

lemma identify_technology_with_context_loop_json [simp]:
  "printed_json (identify_technology_with_context_loop table html s) = printed_json s"
  by (induction table html s rule: identify_technology_with_context_loop.induct)
     (simp_all split: option.splits)

lemma identify_technology_with_context_loop_flags [simp]:
  "output_json (identify_technology_with_context_loop table html s) = output_json s"
  by (induction table html s rule: identify_technology_with_context_loop.induct)
     (simp_all split: option.splits)

lemma identify_technology_with_context_loop_results:
  "results (identify_technology_with_context_loop table html s) =
     (case List.find (\<lambda>(tech, pattern).
               first_valid_match tech html (findall pattern html) \<noteq> None) table of
        None \<Rightarrow> results s
      | Some (tech, pattern) \<Rightarrow>
          AList.update ''Frontend''
            (Dict [(''name'', tech),
                   (''detected_by'',
                      fst (the (first_valid_match tech html (findall pattern html))))])
            (results s))"
  by (induction table html s rule: identify_technology_with_context_loop.induct)
     (auto split: option.splits)

section \<open>Facts about fetching\<close>

lemma detect_web_server_results:
  "results (detect_web_server server_info s) =
     (case List.find (\<lambda>(server, pattern). search pattern server_info \<noteq> None) WEB_SERVERS of
        None \<Rightarrow> results s
      | Some (server, pattern) \<Rightarrow> AList.update ''Web Server'' (Str server) (results s))"
  by (simp add: detect_web_server_def detect_web_server_loop_results cong: option.case_cong)

lemma fetch_website_Raised:
  "fst (fetch_website (Raised e) s) = None"
  "results (snd (fetch_website (Raised e) s)) = results s"
  "printed_json (snd (fetch_website (Raised e) s)) = printed_json s"
  by (simp_all add: fetch_website_def Let_def)

lemma fetch_website_Returned:
  "fst (fetch_website (Returned resp) s) = Some (body resp, headers resp)"
  "printed_json (snd (fetch_website (Returned resp) s)) = printed_json s"
  "output_json (snd (fetch_website (Returned resp) s)) = output_json s"
  by (simp_all add: fetch_website_def Let_def detect_web_server_def)

lemma fetch_website_results:
  "results (snd (fetch_website (Returned resp) s)) =
     (let raw = headers_get (headers resp) ''Server'' ''Unknown''
      in AList.update ''Web Server''
           (Str (case List.find (\<lambda>(server, pattern). search pattern raw \<noteq> None) WEB_SERVERS of
                   None \<Rightarrow> raw
                 | Some (server, pattern) \<Rightarrow> server))
           (results s))"
  by (simp add: fetch_website_def Let_def detect_web_server_results split: option.splits)

section \<open>Reporting never fails on what the detectors record\<close>

lemma reportable_update:
  "list_all (\<lambda>kv. reportable (snd kv)) r \<Longrightarrow> reportable v \<Longrightarrow>
   list_all (\<lambda>kv. reportable (snd kv)) (AList.update k v r)"
  by (induction r) auto

lemma report_results_ok:
  "list_all (\<lambda>kv. reportable (snd kv)) r \<Longrightarrow>
   \<exists>s'. report_results r s = Inr s' \<and> results s' = results s
        \<and> printed_json s' = printed_json s \<and> output_json s' = output_json s"
  by (induction r s rule: report_results.induct) auto

lemma report_ok:
  assumes "list_all (\<lambda>kv. reportable (snd kv)) (results s)"
  shows "\<exists>s'. report s = Inr s' \<and> results s' = results s
             \<and> printed_json s' = printed_json s @ (if output_json s then [results s] else [])"
proof (cases "results s = []")
  case True
  then show ?thesis by (simp add: report_def)
next
  case False
  from report_results_ok [OF assms, of "info ''Scan results:'' s"]
  obtain s1 where "report_results (results s) (info ''Scan results:'' s) = Inr s1"
    and "results s1 = results s" and "printed_json s1 = printed_json s"
    and "output_json s1 = output_json s"
    by auto
  with False show ?thesis by (simp add: report_def)
qed

lemma identify_technology_with_context_loop_reportable:
  "list_all (\<lambda>kv. reportable (snd kv)) (results s) \<Longrightarrow>
   list_all (\<lambda>kv. reportable (snd kv))
     (results (identify_technology_with_context_loop table html s))"
  by (simp add: identify_technology_with_context_loop_results reportable_update
           split: option.splits prod.splits)

lemma identify_backend_language_with_context_loop_reportable:
  "list_all (\<lambda>kv. reportable (snd kv)) (results s) \<Longrightarrow>
   list_all (\<lambda>kv. reportable (snd kv))
     (results (identify_backend_language_with_context_loop table html hdrs s))"
  by (simp add: identify_backend_language_with_context_loop_results reportable_update
           split: option.splits prod.splits)

lemma fetch_website_reportable:
  "list_all (\<lambda>kv. reportable (snd kv)) (results s) \<Longrightarrow>
   list_all (\<lambda>kv. reportable (snd kv)) (results (snd (fetch_website outcome s)))"
  by (cases outcome) (simp_all add: fetch_website_Raised fetch_website_results reportable_update Let_def)

section \<open>What \<open>main.py\<close> does\<close>

lemma main_detect_web_server_raises:
  "main_detect_web_server server_info s = Inl (AttributeError ''info'', s)"
  by (simp add: main_detect_web_server_def module_attribute_def)

lemma main_fetch_website_raises:
  "main_fetch_website outcome s =
     Inl (if verbose s then (AttributeError ''info'', s)
          else case outcome of
                 Raised e \<Rightarrow> (AttributeError ''error'', s)
               | Returned resp \<Rightarrow>
                   (AttributeError ''info'',
                    set_result ''Web Server''
                      (Str (headers_get (headers resp) ''Server'' ''Unknown'')) s))"
  by (simp add: main_fetch_website_def main_detect_web_server_raises module_attribute_def
        Let_def split: get_result.splits)

lemma identify_technology_raises:
  "identify_technology html s = Inl (AttributeError ''info'', s)"
  by (simp add: identify_technology_def module_attribute_def)

lemma identify_backend_language_raises:
  "identify_backend_language html hdrs s = Inl (AttributeError ''info'', s)"
  by (simp add: identify_backend_language_def module_attribute_def)

lemma run_raises:
  "run outcome s = Inl (AttributeError ''banner'', s)"
  by (simp add: run_def module_attribute_def)

section \<open>A scan of \<open>v2.py\<close> that goes through\<close>

lemma identify_technology_with_context_other_keys:
  "k \<noteq> ''Frontend'' \<Longrightarrow>
   map_of (results (identify_technology_with_context html s)) k = map_of (results s) k"
  by (simp add: identify_technology_with_context_def
        identify_technology_with_context_loop_results update_conv'
        split: option.splits prod.splits)

lemma identify_backend_language_with_context_other_keys:
  "k \<noteq> ''Backend Language'' \<Longrightarrow>
   map_of (results (identify_backend_language_with_context html hdrs s)) k = map_of (results s) k"
  by (simp add: identify_backend_language_with_context_def
        identify_backend_language_with_context_loop_results update_conv'
        split: option.splits prod.splits)

lemma run_v2_Returned:
  assumes "body resp \<noteq> []" and "list_all (\<lambda>kv. reportable (snd kv)) (results s)"
  shows "\<exists>s'. run_v2 (Returned resp) s = Inr s'
           \<and> results s' = results (identify_backend_language_with_context (body resp) (headers resp)
                 (identify_technology_with_context (body resp)
                    (snd (fetch_website (Returned resp)
                            (info (''Starting scan for website: '' @ url s) (banner s))))))
           \<and> printed_json s' = printed_json s @ (if output_json s then [results s'] else [])"
proof -
  let ?s2 = "snd (fetch_website (Returned resp)
                    (info (''Starting scan for website: '' @ url s) (banner s)))"
  let ?s4 = "identify_backend_language_with_context (body resp) (headers resp)
               (identify_technology_with_context (body resp) ?s2)"
  have run: "run_v2 (Returned resp) s = report ?s4"
    using assms(1) by (simp add: run_v2_def Let_def split_beta fetch_website_Returned)
  have "list_all (\<lambda>kv. reportable (snd kv)) (results ?s2)"
    using assms(2) by (intro fetch_website_reportable) simp
  then have "list_all (\<lambda>kv. reportable (snd kv)) (results ?s4)"
    by (simp add: identify_backend_language_with_context_def
          identify_technology_with_context_def
          identify_backend_language_with_context_loop_reportable
          identify_technology_with_context_loop_reportable)
  from report_ok [OF this] obtain s' where s': "report ?s4 = Inr s'"
    "results s' = results ?s4"
    "printed_json s' = printed_json ?s4 @ (if output_json ?s4 then [results ?s4] else [])"
    by blast
  have "printed_json ?s4 = printed_json s" "output_json ?s4 = output_json s"
    by (simp_all add: identify_backend_language_with_context_def
          identify_technology_with_context_def fetch_website_Returned)
  with run s' show ?thesis by simp
qed

lemma headers_get_absent:
  "map to_lower name \<notin> set (map (\<lambda>kv. map to_lower (fst kv)) hdrs) \<Longrightarrow>
   headers_get hdrs name dflt = dflt"
  by (induction hdrs name dflt rule: headers_get.induct) auto

section \<open>The detectors as searches through their tables\<close>

lemma matching_Nil [simp]: "matching [] html = []"
  by (simp add: matching_def map_filter_simps)

lemma matching_Cons [simp]:
  "matching ((tech, pattern) # rest) html =
     (case search pattern html of
        None \<Rightarrow> matching rest html
      | Some m \<Rightarrow> (tech, m_group m) # matching rest html)"
  by (simp add: matching_def map_filter_simps split: option.splits)

lemma identify_technology_with_context_results:
  "results (identify_technology_with_context html s) =
     (case List.find (\<lambda>(tech, pattern).
               first_valid_match tech html (findall pattern html) \<noteq> None) TECHNOLOGIES of
        None \<Rightarrow> results s
      | Some (tech, pattern) \<Rightarrow>
          AList.update ''Frontend''
            (Dict [(''name'', tech),
                   (''detected_by'',
                      fst (the (first_valid_match tech html (findall pattern html))))])
            (results s))"
  unfolding identify_technology_with_context_def identify_technology_with_context_loop_results
  by (simp cong: option.case_cong del: not_None_eq)

lemma identify_backend_language_with_context_results:
  "results (identify_backend_language_with_context html hdrs s) =
     (case List.find (\<lambda>(lang, pattern).
               valid_body_context lang pattern html \<noteq> None \<or> header_match pattern hdrs)
             BACKEND_LANGUAGES of
        None \<Rightarrow> results s
      | Some (lang, pattern) \<Rightarrow>
          AList.update ''Backend Language''
            (Dict [(''name'', lang),
                   (''detected_by'',
                      case valid_body_context lang pattern html of
                        Some context \<Rightarrow> strip context
                      | None \<Rightarrow> ''Headers'')])
            (results s))"
  unfolding identify_backend_language_with_context_def
    identify_backend_language_with_context_loop_results
  by (simp cong: option.case_cong del: not_None_eq)

section \<open>A literal pattern finds a word without regard to case\<close>





section \<open>The basic frontend detector\<close>

text \<open>
  C1. The specification has the basic frontend detector record the first matching label
  of the table. \<open>identify_technology\<close> of \<open>main.py\<close> records nothing, whatever the
  body: its first statement looks up \<open>info\<close> in the module that \<open>import Messages\<close>
  bound, \<open>AttributeError\<close> is raised, and the scanner is left as it was. On the body
  \<open>django flask\<close> the patterns of Django and of Flask both match, and a fresh scanner is
  left without a \<open>Frontend\<close> entry; \<open>run\<close> does not get as far as the detector.
\<close>

theorem basic_frontend_raises:
  "identify_technology html s = Inl (AttributeError ''info'', s)
   \<and> matching TECHNOLOGIES ''django flask'' = [(''Django'', ''django''), (''Flask'', ''flask'')]
   \<and> map_sum (\<lambda>(e, s'). (e, results s')) results
        (identify_technology ''django flask'' (init u v j)) = Inl (AttributeError ''info'', [])
   \<and> map_sum (\<lambda>(e, s'). (e, results s')) results
        (run (Returned \<lparr>body = ''django flask'', headers = hdrs\<rparr>) (init u v j))
       = Inl (AttributeError ''banner'', [])"
proof -
  have m: "matching TECHNOLOGIES ''django flask'' = [(''Django'', ''django''), (''Flask'', ''flask'')]"
    by code_simp
  from m show ?thesis
    by (simp add: identify_technology_raises run_raises)
qed

theorem basic_frontend_raises_witness:
  "identify_technology ''django flask'' (init ''http://example.com'' True False)
     = Inl (AttributeError ''info'', init ''http://example.com'' True False)
   \<and> results (init ''http://example.com'' True False) = []"
  using basic_frontend_raises [of "''django flask''" "init ''http://example.com'' True False"]
  by simp

section \<open>The basic backend detector\<close>

text \<open>
  C5. The specification has the basic backend detector record the first label of PHP,
  Python, Ruby, Node.js that matches the body or a header value.
  \<open>identify_backend_language\<close> of \<open>main.py\<close> records nothing, whatever the body and the
  headers: its first statement looks up \<open>info\<close> in the module that \<open>import Messages\<close>
  bound, \<open>AttributeError\<close> is raised, and the scanner is left as it was. With the header
  \<open>X-Powered-By: PHP/8.1\<close>, which the pattern of PHP matches, and an empty body, a
  fresh scanner is left without a \<open>Backend Language\<close> entry.
\<close>

theorem basic_backend_raises:
  "identify_backend_language html hdrs s = Inl (AttributeError ''info'', s)
   \<and> map fst BACKEND_LANGUAGES = [''PHP'', ''Python'', ''Ruby'', ''Node.js'']
   \<and> header_match (lit ''php'') [(''X-Powered-By'', ''PHP/8.1'')]
   \<and> map_sum (\<lambda>(e, s'). (e, results s')) results
        (identify_backend_language [] [(''X-Powered-By'', ''PHP/8.1'')] (init u v j))
       = Inl (AttributeError ''info'', [])"
proof -
  have order: "map fst BACKEND_LANGUAGES = [''PHP'', ''Python'', ''Ruby'', ''Node.js'']"
    by (simp add: BACKEND_LANGUAGES_def)
  have php: "header_match (lit ''php'') [(''X-Powered-By'', ''PHP/8.1'')]"
    by code_simp
  from order php show ?thesis
    by (simp add: identify_backend_language_raises)
qed

theorem basic_backend_raises_witness:
  "identify_backend_language [] [(''X-Powered-By'', ''PHP/8.1'')]
       (init ''http://example.com'' True False)
     = Inl (AttributeError ''info'', init ''http://example.com'' True False)
   \<and> results (init ''http://example.com'' True False) = []"
  using basic_backend_raises [of "[]" "[(''X-Powered-By'', ''PHP/8.1'')]"
          "init ''http://example.com'' True False"]
  by simp

section \<open>The end-to-end example\<close>




section \<open>The context window of the frontend detector\<close>

text \<open>
  C3. The specification has every match validated against the 50 characters on either
  side of it. \<open>identify_technology_with_context\<close> takes the window around
  \<open>html.find(match)\<close>, the first place where the matched text occurs, and ends it 50
  characters after that place. On the body made of \<open>react\<close>, a hundred \<open>x\<close> and
  \<open>react jsx\<close>, \<open>findall\<close> yields both occurrences of \<open>react\<close>; \<open>jsx\<close> stands next to
  the second one, but both windows are the first 50 characters of the body, neither
  holds a keyword, and no frontend is recorded.
\<close>

theorem context_window_of_first_occurrence:
  "findall (Alt (lit ''react'') (lit ''react-dom''))
      (''react'' @ replicate 100 CHR ''x'' @ ''react jsx'') = [''react'', ''react'']
   \<and> find_context (''react'' @ replicate 100 CHR ''x'' @ ''react jsx'') ''react''
       = ''react'' @ replicate 45 CHR ''x''
   \<and> is_valid_context ''xxxxxxxxxx react jsx'' ''React''
   \<and> results (identify_technology_with_context
                (''react'' @ replicate 100 CHR ''x'' @ ''react jsx'') (init u v j)) = []
   \<and> results (identify_technology_with_context
                (''react'' @ replicate 46 CHR ''x'' @ ''jsx'') (init u v j)) = []"
proof -
  have a: "findall (Alt (lit ''react'') (lit ''react-dom''))
      (''react'' @ replicate 100 CHR ''x'' @ ''react jsx'') = [''react'', ''react'']"
    by code_simp
  have b: "find_context (''react'' @ replicate 100 CHR ''x'' @ ''react jsx'') ''react''
       = ''react'' @ replicate 45 CHR ''x''"
    by code_simp
  have c: "is_valid_context ''xxxxxxxxxx react jsx'' ''React''"
    by code_simp
  have f1: "List.find (\<lambda>(tech, pattern).
               first_valid_match tech (''react'' @ replicate 100 CHR ''x'' @ ''react jsx'')
                 (findall pattern (''react'' @ replicate 100 CHR ''x'' @ ''react jsx'')) \<noteq> None)
             TECHNOLOGIES = None"
    by code_simp
  have f2: "List.find (\<lambda>(tech, pattern).
               first_valid_match tech (''react'' @ replicate 46 CHR ''x'' @ ''jsx'')
                 (findall pattern (''react'' @ replicate 46 CHR ''x'' @ ''jsx'')) \<noteq> None)
             TECHNOLOGIES = None"
    by code_simp
  have d: "results (identify_technology_with_context
                (''react'' @ replicate 100 CHR ''x'' @ ''react jsx'') (init u v j)) = []"
    unfolding identify_technology_with_context_results f1 by simp
  have e: "results (identify_technology_with_context
                (''react'' @ replicate 46 CHR ''x'' @ ''jsx'') (init u v j)) = []"
    unfolding identify_technology_with_context_results f2 by simp
  from a b c d e show ?thesis by blast
qed

section \<open>The context-validated backend detector\<close>

text \<open>
  C4, as the specification states it: the recorded object has the keys \<open>name\<close>,
  \<open>source\<close> and \<open>detected_by\<close>. With a body that mentions \<open>index.php\<close> and the header
  \<open>X-Powered-By: PHP/8.1\<close> the object recorded by \<open>v2.py\<close> has two keys, and
  \<open>Headers\<close> stands under \<open>detected_by\<close>.
\<close>

theorem context_backend_shape_counterexample:
  "map_option detection_keys
     (map_of (results (identify_backend_language_with_context ''index.php''
                         [(''X-Powered-By'', ''PHP/8.1'')]
                         (init ''http://example.com'' True True)))
        ''Backend Language'')
     \<noteq> Some [''name'', ''source'', ''detected_by'']
   \<and> results (identify_backend_language_with_context ''index.php''
                [(''X-Powered-By'', ''PHP/8.1'')] (init ''http://example.com'' True True))
     = [(''Backend Language'', Dict [(''name'', ''PHP''), (''detected_by'', ''Headers'')])]"
  by code_simp

text \<open>
  C4, amended: \<open>identify_backend_language_with_context\<close> goes through the table in
  order and stops at the first label that has a body match whose context is valid, or
  else a match in some header value. For a valid body match it records the label with
  the stripped context under \<open>detected_by\<close>; for a header match it records the label
  with \<open>Headers\<close> under \<open>detected_by\<close>, without validation. The recorded object has the
  two keys \<open>name\<close> and \<open>detected_by\<close>, and no \<open>source\<close>.
\<close>

theorem context_backend_first_match:
  "results (identify_backend_language_with_context html hdrs s) =
     (case List.find (\<lambda>(lang, pattern).
               valid_body_context lang pattern html \<noteq> None \<or> header_match pattern hdrs)
             BACKEND_LANGUAGES of
        None \<Rightarrow> results s
      | Some (lang, pattern) \<Rightarrow>
          AList.update ''Backend Language''
            (Dict [(''name'', lang),
                   (''detected_by'',
                      case valid_body_context lang pattern html of
                        Some context \<Rightarrow> strip context
                      | None \<Rightarrow> ''Headers'')])
            (results s))
   \<and> (map_of (results (identify_backend_language_with_context html hdrs (init u v j)))
           ''Backend Language'' = Some d
        \<longrightarrow> detection_keys d = [''name'', ''detected_by''])"
proof -
  have keys: "detection_keys d = [''name'', ''detected_by'']"
    if "map_of (results (identify_backend_language_with_context html hdrs (init u v j)))
           ''Backend Language'' = Some d"
    using that
    by (auto simp add: identify_backend_language_with_context_results
          split: option.splits prod.splits simp del: not_None_eq)
  with identify_backend_language_with_context_results [of html hdrs s] show ?thesis
    by blast
qed

theorem context_backend_first_match_witness:
  "map_of (results (identify_backend_language_with_context ''index.php''
                         [(''X-Powered-By'', ''PHP/8.1'')]
                         (init ''http://example.com'' True True)))
        ''Backend Language'' = Some (Dict [(''name'', ''PHP''), (''detected_by'', ''Headers'')])
   \<and> detection_keys (Dict [(''name'', ''PHP''), (''detected_by'', ''Headers'')])
       = [''name'', ''detected_by'']"
proof -
  have r: "map_of (results (identify_backend_language_with_context ''index.php''
                         [(''X-Powered-By'', ''PHP/8.1'')]
                         (init ''http://example.com'' True True)))
        ''Backend Language'' = Some (Dict [(''name'', ''PHP''), (''detected_by'', ''Headers'')])"
    by code_simp
  with context_backend_first_match [of "''index.php''" "[(''X-Powered-By'', ''PHP/8.1'')]"
         "init ''http://example.com'' True True" "''http://example.com''" True True
         "Dict [(''name'', ''PHP''), (''detected_by'', ''Headers'')]"]
  show ?thesis by blast
qed

section \<open>The web-server detector\<close>





section \<open>The labels that context validation knows\<close>

lemma uncovered_never_valid:
  "\<not> covered tech \<Longrightarrow> \<not> is_valid_context context tech"
  by (simp add: covered_def is_valid_context_def)

lemma uncovered_no_valid_match:
  "\<not> covered tech \<Longrightarrow> first_valid_match tech html matches = None"
  by (induction matches) (simp_all add: uncovered_never_valid Let_def)

lemma uncovered_no_body_context:
  "\<not> covered lang \<Longrightarrow> valid_body_context lang pattern html = None"
  by (simp add: valid_body_context_def uncovered_never_valid Let_def split: option.splits)

lemma backend_labels_uncovered:
  "(lang, pattern) \<in> set BACKEND_LANGUAGES \<Longrightarrow> \<not> covered lang"
  by (auto simp add: BACKEND_LANGUAGES_def covered_def related_keywords_def)

text \<open>
  C6, as the specification states it: the keyword table covers three of the ten
  frontend labels. It has four entries, each for a label of the frontend table, and a
  body with \<open>react-dom\<close> is recorded as React.
\<close>

theorem context_keyword_coverage_counterexample:
  "length (covered_labels TECHNOLOGIES) \<noteq> 3
   \<and> covered_labels TECHNOLOGIES = [''WordPress'', ''Django'', ''Flask'', ''React'']
   \<and> map fst related_keywords = [''WordPress'', ''Django'', ''Flask'', ''React'']
   \<and> results (identify_technology_with_context ''<script src=\"react-dom.js\">''
                (init ''http://example.com'' True True))
       = [(''Frontend'', Dict [(''name'', ''React''), (''detected_by'', ''react'')])]"
  by code_simp

text \<open>
  C6, amended: the keyword table covers four of the ten frontend labels (WordPress,
  Django, Flask, React) and none of the four backend labels. A label that it does not
  cover never passes \<open>is_valid_context\<close>, whatever the context, so neither detector of
  \<open>v2.py\<close> records it from the body, whatever the body: a \<open>Frontend\<close> entry always
  names one of the four covered labels, and the \<open>Backend Language\<close> entry is decided by
  the headers alone.
\<close>

theorem context_keyword_coverage:
  "length TECHNOLOGIES = 10
   \<and> covered_labels TECHNOLOGIES = [''WordPress'', ''Django'', ''Flask'', ''React'']
   \<and> length BACKEND_LANGUAGES = 4
   \<and> covered_labels BACKEND_LANGUAGES = []
   \<and> (\<not> covered tech \<longrightarrow>
        \<not> is_valid_context context tech
        \<and> first_valid_match tech html matches = None
        \<and> valid_body_context tech pattern html = None)
   \<and> (map_of (results (identify_technology_with_context html (init u v j))) ''Frontend'' = Some d
        \<longrightarrow> (\<exists>tech match. d = Dict [(''name'', tech), (''detected_by'', match)]
                \<and> tech \<in> set [''WordPress'', ''Django'', ''Flask'', ''React'']))
   \<and> results (identify_backend_language_with_context html hdrs s) =
       (case List.find (\<lambda>(lang, pattern). header_match pattern hdrs) BACKEND_LANGUAGES of
          None \<Rightarrow> results s
        | Some (lang, pattern) \<Rightarrow>
            AList.update ''Backend Language''
              (Dict [(''name'', lang), (''detected_by'', ''Headers'')]) (results s))
   \<and> is_valid_context ''/wp-content/themes/'' ''WordPress''
   \<and> \<not> is_valid_context ''/bitrix/js/main/core/bxcore.js'' ''Bitrix''
   \<and> results (identify_technology_with_context ''/bitrix/js/main/core/bxcore.js'' (init u v j)) = []"
proof -
  have n: "length TECHNOLOGIES = 10" by (simp add: TECHNOLOGIES_def)
  have front: "covered_labels TECHNOLOGIES = [''WordPress'', ''Django'', ''Flask'', ''React'']"
    by code_simp
  have nb: "length BACKEND_LANGUAGES = 4" by (simp add: BACKEND_LANGUAGES_def)
  have backend_none: "covered_labels BACKEND_LANGUAGES = []"
    by code_simp
  have never: "\<not> covered tech \<longrightarrow>
        \<not> is_valid_context context tech
        \<and> first_valid_match tech html matches = None
        \<and> valid_body_context tech pattern html = None"
    by (simp add: uncovered_never_valid uncovered_no_valid_match uncovered_no_body_context)
  have recorded: "\<exists>tech match. d = Dict [(''name'', tech), (''detected_by'', match)]
                \<and> tech \<in> set [''WordPress'', ''Django'', ''Flask'', ''React'']"
    if d: "map_of (results (identify_technology_with_context html (init u v j))) ''Frontend''
             = Some d"
  proof (cases "List.find (\<lambda>(tech, pattern).
               first_valid_match tech html (findall pattern html) \<noteq> None) TECHNOLOGIES")
    case None
    with d show ?thesis by (simp add: identify_technology_with_context_results)
  next
    case (Some a)
    obtain tech pattern where a: "a = (tech, pattern)" by (cases a)
    from Some a have "(tech, pattern) \<in> set TECHNOLOGIES"
      and "first_valid_match tech html (findall pattern html) \<noteq> None"
      by (auto simp add: find_Some_iff in_set_conv_nth simp del: not_None_eq)
    then have "covered tech" "tech \<in> set (map fst TECHNOLOGIES)"
      using uncovered_no_valid_match [of tech html "findall pattern html"] by force+
    then have "tech \<in> set (covered_labels TECHNOLOGIES)"
      by (simp add: covered_labels_def)
    then have "tech \<in> set [''WordPress'', ''Django'', ''Flask'', ''React'']"
      unfolding front .
    moreover from d Some a
    have "d = Dict [(''name'', tech),
                    (''detected_by'', fst (the (first_valid_match tech html (findall pattern html))))]"
      by (simp add: identify_technology_with_context_results del: not_None_eq)
    ultimately show ?thesis by blast
  qed
  have same: "List.find (\<lambda>(lang, pattern).
                   valid_body_context lang pattern html \<noteq> None \<or> header_match pattern hdrs)
                 BACKEND_LANGUAGES
              = List.find (\<lambda>(lang, pattern). header_match pattern hdrs) BACKEND_LANGUAGES"
    by (rule find_cong)
       (auto simp add: uncovered_no_body_context backend_labels_uncovered simp del: not_None_eq)
  have headers_only: "results (identify_backend_language_with_context html hdrs s) =
       (case List.find (\<lambda>(lang, pattern). header_match pattern hdrs) BACKEND_LANGUAGES of
          None \<Rightarrow> results s
        | Some (lang, pattern) \<Rightarrow>
            AList.update ''Backend Language''
              (Dict [(''name'', lang), (''detected_by'', ''Headers'')]) (results s))"
  proof (cases "List.find (\<lambda>(lang, pattern). header_match pattern hdrs) BACKEND_LANGUAGES")
    case None
    then show ?thesis
      unfolding identify_backend_language_with_context_results same by simp
  next
    case (Some a)
    obtain lang pattern where a: "a = (lang, pattern)" by (cases a)
    from Some a have "(lang, pattern) \<in> set BACKEND_LANGUAGES"
      by (auto simp add: find_Some_iff in_set_conv_nth)
    then have "valid_body_context lang pattern html = None"
      by (intro uncovered_no_body_context backend_labels_uncovered)
    with Some a show ?thesis
      unfolding identify_backend_language_with_context_results same by simp
  qed
  have wp: "is_valid_context ''/wp-content/themes/'' ''WordPress''"
    by code_simp
  have bx: "\<not> is_valid_context ''/bitrix/js/main/core/bxcore.js'' ''Bitrix''"
    by code_simp
  have nofind: "List.find (\<lambda>(tech, pattern).
               first_valid_match tech ''/bitrix/js/main/core/bxcore.js''
                 (findall pattern ''/bitrix/js/main/core/bxcore.js'') \<noteq> None) TECHNOLOGIES = None"
    by code_simp
  have bitrix: "results (identify_technology_with_context ''/bitrix/js/main/core/bxcore.js''
                   (init u v j)) = []"
    unfolding identify_technology_with_context_results nofind by simp
  from n front nb backend_none never recorded same headers_only wp bx bitrix show ?thesis by blast
qed

theorem context_keyword_coverage_witness:
  "\<not> covered ''Bitrix''
   \<and> \<not> is_valid_context ''/bitrix/js/main/core/bxcore.js'' ''Bitrix''
   \<and> first_valid_match ''Bitrix'' ''<script src=\"react-dom.js\">'' [''bitrix'', ''bxcore''] = None
   \<and> map_of (results (identify_technology_with_context ''<script src=\"react-dom.js\">''
                (init ''http://example.com'' True True))) ''Frontend''
       = Some (Dict [(''name'', ''React''), (''detected_by'', ''react'')])
   \<and> ''React'' \<in> set [''WordPress'', ''Django'', ''Flask'', ''React'']"
proof -
  have a: "\<not> covered ''Bitrix''"
    by code_simp
  have b: "map_of (results (identify_technology_with_context ''<script src=\"react-dom.js\">''
                (init ''http://example.com'' True True))) ''Frontend''
       = Some (Dict [(''name'', ''React''), (''detected_by'', ''react'')])"
    by code_simp
  from a b context_keyword_coverage [of "''Bitrix''" "''/bitrix/js/main/core/bxcore.js''"
         "''<script src=\"react-dom.js\">''" "[''bitrix'', ''bxcore'']"
         "Alt (lit ''bitrix'') (lit ''bxcore'')"
         "''http://example.com''" True True
         "Dict [(''name'', ''React''), (''detected_by'', ''react'')]" "[]"
         "init ''http://example.com'' True True"]
  show ?thesis by simp
qed

section \<open>A failed fetch\<close>

text \<open>
  C8. When the fetch raises (connection error, timeout or the HTTP error of an error
  status), \<open>run\<close> of \<open>v2.py\<close> stops after the warning: the results are those the
  scanner started with, so a fresh scanner ends with no detection at all, and nothing is
  printed as JSON, whatever the \<open>--json\<close> flag. The console of a fresh scanner is given
  in full.
\<close>

theorem fetch_failure_aborts_scan:
  "run_v2 (Raised e) (init u v j) =
     Inr \<lparr>url = u, verbose = v, output_json = j, results = [],
          console = [Banner, Log INFO (''Starting scan for website: '' @ u)]
            @ (if v then [Log INFO (''Fetching content from '' @ u)] else [])
            @ [Log ERROR (''Connection error: '' @ e),
               Log WARN ''Failed to retrieve website content.'']\<rparr>
   \<and> map_sum id results (run_v2 (Raised e) s) = Inr (results s)
   \<and> map_sum id printed_json (run_v2 (Raised e) s) = Inr (printed_json s)"
proof -
  have "run_v2 (Raised e) (init u v j) =
     Inr \<lparr>url = u, verbose = v, output_json = j, results = [],
          console = [Banner, Log INFO (''Starting scan for website: '' @ u)]
            @ (if v then [Log INFO (''Fetching content from '' @ u)] else [])
            @ [Log ERROR (''Connection error: '' @ e),
               Log WARN ''Failed to retrieve website content.'']\<rparr>"
    by (simp add: run_v2_def fetch_website_def init_def info_def warn_def error_def banner_def
          emit_def Let_def)
  moreover have "map_sum id results (run_v2 (Raised e) s) = Inr (results s)"
    by (simp add: run_v2_def split_beta fetch_website_Raised Let_def)
  moreover have "map_sum id printed_json (run_v2 (Raised e) s) = Inr (printed_json s)"
    by (simp add: run_v2_def split_beta fetch_website_Raised Let_def)
  ultimately show ?thesis by blast
qed

theorem fetch_failure_aborts_scan_witness:
  "run_v2 (Raised ''timed out'') (init ''http://example.com'' True True) =
     Inr \<lparr>url = ''http://example.com'', verbose = True, output_json = True, results = [],
          console = [Banner, Log INFO ''Starting scan for website: http://example.com'',
                     Log INFO ''Fetching content from http://example.com'',
                     Log ERROR ''Connection error: timed out'',
                     Log WARN ''Failed to retrieve website content.'']\<rparr>
   \<and> map_sum id printed_json
         (run_v2 (Raised ''timed out'') (init ''http://example.com'' True True)) = Inr []"
  using fetch_failure_aborts_scan [of "''timed out''" "''http://example.com''" True True
          "init ''http://example.com'' True True"]
  by (simp add: printed_json_def)

section \<open>An empty body\<close>

lemma unknown_is_no_server:
  "search (lit ''nginx'') ''Unknown'' = None" "search (lit ''apache'') ''Unknown'' = None"
  "search (lit ''LiteSpeed'') ''Unknown'' = None"
  by code_simp+

text \<open>
  C10. When the fetch succeeds but the body is the empty string, \<open>run\<close> of \<open>v2.py\<close>
  takes the branch it takes after a failed fetch: it warns and returns what
  \<open>fetch_website\<close> left. No detector runs and nothing is printed as JSON. With the one
  header \<open>X-Powered-By: PHP/8.1\<close> a fresh scanner ends with the \<open>Web Server\<close> entry
  alone, although \<open>identify_backend_language_with_context\<close> on the same body and
  headers records PHP, and although the scan of the one-character body \<open>x\<close> with
  these headers does record it.
\<close>

theorem empty_body_treated_as_failure:
  "run_v2 (Returned \<lparr>body = [], headers = hdrs\<rparr>) s =
     Inr (warn ''Failed to retrieve website content.''
            (snd (fetch_website (Returned \<lparr>body = [], headers = hdrs\<rparr>)
                    (info (''Starting scan for website: '' @ url s) (banner s)))))
   \<and> run_v2 (Raised e) s =
     Inr (warn ''Failed to retrieve website content.''
            (snd (fetch_website (Raised e)
                    (info (''Starting scan for website: '' @ url s) (banner s)))))
   \<and> map_sum id printed_json (run_v2 (Returned \<lparr>body = [], headers = hdrs\<rparr>) s)
       = Inr (printed_json s)
   \<and> map_sum id (\<lambda>s'. map fst (results s'))
        (run_v2 (Returned \<lparr>body = [], headers = hdrs\<rparr>) (init u v j)) = Inr [''Web Server'']
   \<and> run_v2 (Returned \<lparr>body = [], headers = [(''X-Powered-By'', ''PHP/8.1'')]\<rparr>) (init u v j)
       = Inr \<lparr>url = u, verbose = v, output_json = j,
              results = [(''Web Server'', Str ''Unknown'')],
              console = [Banner, Log INFO (''Starting scan for website: '' @ u)]
                @ (if v then [Log INFO (''Fetching content from '' @ u),
                              Log SUCCESS ''Web Server: Unknown''] else [])
                @ [Log INFO ''Analyzing web server information.'',
                   Log WARN ''No known web server detected.'',
                   Log WARN ''Failed to retrieve website content.'']\<rparr>
   \<and> results (identify_backend_language_with_context [] [(''X-Powered-By'', ''PHP/8.1'')]
                (init u v j))
       = [(''Backend Language'', Dict [(''name'', ''PHP''), (''detected_by'', ''Headers'')])]
   \<and> (\<exists>s'. run_v2 (Returned \<lparr>body = ''x'', headers = [(''X-Powered-By'', ''PHP/8.1'')]\<rparr>)
                (init u v j) = Inr s'
         \<and> results s' =
             [(''Web Server'', Str ''Unknown''),
              (''Backend Language'', Dict [(''name'', ''PHP''), (''detected_by'', ''Headers'')])]
         \<and> printed_json s' = (if j then [results s'] else []))"
proof -
  let ?r = "Returned \<lparr>body = [], headers = hdrs\<rparr>"
  let ?php = "[(''X-Powered-By'', ''PHP/8.1'')]"
  let ?s1 = "info (''Starting scan for website: '' @ url s) (banner s)"
  have a: "run_v2 ?r s = Inr (warn ''Failed to retrieve website content.''
                            (snd (fetch_website ?r ?s1)))"
    by (simp add: run_v2_def Let_def split_beta fetch_website_Returned)
  have b: "run_v2 (Raised e) s = Inr (warn ''Failed to retrieve website content.''
                            (snd (fetch_website (Raised e) ?s1)))"
    by (simp add: run_v2_def Let_def split_beta fetch_website_Raised)
  have c: "map_sum id printed_json (run_v2 ?r s) = Inr (printed_json s)"
    by (simp add: a fetch_website_Returned)
  have d: "map_sum id (\<lambda>s'. map fst (results s')) (run_v2 ?r (init u v j)) = Inr [''Web Server'']"
    by (simp add: run_v2_def Let_def split_beta fetch_website_Returned fetch_website_results)
  have f: "run_v2 (Returned \<lparr>body = [], headers = ?php\<rparr>) (init u v j)
       = Inr \<lparr>url = u, verbose = v, output_json = j,
              results = [(''Web Server'', Str ''Unknown'')],
              console = [Banner, Log INFO (''Starting scan for website: '' @ u)]
                @ (if v then [Log INFO (''Fetching content from '' @ u),
                              Log SUCCESS ''Web Server: Unknown''] else [])
                @ [Log INFO ''Analyzing web server information.'',
                   Log WARN ''No known web server detected.'',
                   Log WARN ''Failed to retrieve website content.'']\<rparr>"
    using unknown_is_no_server
    by (simp add: run_v2_def fetch_website_def detect_web_server_def WEB_SERVERS_def
          init_def info_def warn_def error_def success_def banner_def set_result_def
          emit_def Let_def to_lower_def del: lit.simps)
  have found: "List.find (\<lambda>(lang, pattern).
                   valid_body_context lang pattern [] \<noteq> None \<or> header_match pattern ?php)
                 BACKEND_LANGUAGES = Some (''PHP'', lit ''php'')"
    by code_simp
  have novalid: "valid_body_context ''PHP'' (lit ''php'') [] = None"
    by code_simp
  have g: "results (identify_backend_language_with_context [] ?php (init u v j))
       = [(''Backend Language'', Dict [(''name'', ''PHP''), (''detected_by'', ''Headers'')])]"
    unfolding identify_backend_language_with_context_results found
    by (simp only: option.case prod.case novalid init_fields AList.update.simps)
  have server: "(let raw = headers_get ?php ''Server'' ''Unknown''
      in AList.update ''Web Server''
           (Str (case List.find (\<lambda>(server, pattern). search pattern raw \<noteq> None) WEB_SERVERS of
                   None \<Rightarrow> raw
                 | Some (server, pattern) \<Rightarrow> server))
           []) = [(''Web Server'', Str ''Unknown'')]"
    by code_simp
  have frontend: "List.find (\<lambda>(tech, pattern).
               first_valid_match tech ''x'' (findall pattern ''x'') \<noteq> None) TECHNOLOGIES = None"
    by code_simp
  have backend: "List.find (\<lambda>(lang, pattern).
                   valid_body_context lang pattern ''x'' \<noteq> None \<or> header_match pattern ?php)
                 BACKEND_LANGUAGES = Some (''PHP'', lit ''php'')"
    by code_simp
  have novalid_x: "valid_body_context ''PHP'' (lit ''php'') ''x'' = None"
    by code_simp
  let ?resp = "\<lparr>body = ''x'', headers = ?php\<rparr>"
  have "body ?resp \<noteq> []" by simp
  moreover have "list_all (\<lambda>kv. reportable (snd kv)) (results (init u v j))" by simp
  ultimately obtain s' where run: "run_v2 (Returned ?resp) (init u v j) = Inr s'"
    and res: "results s' = results (identify_backend_language_with_context (body ?resp)
                 (headers ?resp)
                 (identify_technology_with_context (body ?resp)
                    (snd (fetch_website (Returned ?resp)
                            (info (''Starting scan for website: '' @ url (init u v j))
                               (banner (init u v j)))))))"
    and json: "printed_json s' = printed_json (init u v j)
                 @ (if output_json (init u v j) then [results s'] else [])"
    using run_v2_Returned [of ?resp "init u v j"] by blast
  have fetched: "results (snd (fetch_website (Returned ?resp)
                            (info (''Starting scan for website: '' @ url (init u v j))
                               (banner (init u v j))))) = [(''Web Server'', Str ''Unknown'')]"
    unfolding fetch_website_results results_messages init_fields response.select_convs
    by (rule server)
  have "results s' = [(''Web Server'', Str ''Unknown''),
              (''Backend Language'', Dict [(''name'', ''PHP''), (''detected_by'', ''Headers'')])]"
    unfolding res identify_backend_language_with_context_results
      identify_technology_with_context_results fetched response.select_convs
    by (simp only: frontend backend novalid_x option.case list.case prod.case) simp
  with run json have h: "\<exists>s'. run_v2 (Returned ?resp) (init u v j) = Inr s'
         \<and> results s' =
             [(''Web Server'', Str ''Unknown''),
              (''Backend Language'', Dict [(''name'', ''PHP''), (''detected_by'', ''Headers'')])]
         \<and> printed_json s' = (if j then [results s'] else [])"
    by simp
  from a b c d f g h show ?thesis by blast
qed

theorem empty_body_treated_as_failure_witness:
  "run_v2 (Returned \<lparr>body = [], headers = [(''X-Powered-By'', ''PHP/8.1'')]\<rparr>)
        (init ''http://example.com'' True True)
     = Inr \<lparr>url = ''http://example.com'', verbose = True, output_json = True,
            results = [(''Web Server'', Str ''Unknown'')],
            console = [Banner, Log INFO ''Starting scan for website: http://example.com'',
                       Log INFO ''Fetching content from http://example.com'',
                       Log SUCCESS ''Web Server: Unknown'',
                       Log INFO ''Analyzing web server information.'',
                       Log WARN ''No known web server detected.'',
                       Log WARN ''Failed to retrieve website content.'']\<rparr>
   \<and> results (identify_backend_language_with_context [] [(''X-Powered-By'', ''PHP/8.1'')]
                (init ''http://example.com'' True True))
       = [(''Backend Language'', Dict [(''name'', ''PHP''), (''detected_by'', ''Headers'')])]"
  using empty_body_treated_as_failure [of "[]" "init ''http://example.com'' True True"
          "[]" "''http://example.com''" True True]
  by simp

section \<open>The \<open>Web Server\<close> entry\<close>

text \<open>
  C9, as the specification states it: whenever the fetch succeeds and no known web
  server is detected, the raw header value appears in the aggregate and in the JSON
  output. A response with the header \<open>Server: Caddy\<close> and an empty body, scanned by
  \<open>v2.py\<close> under \<open>--json\<close>: no table entry matches \<open>Caddy\<close>, the results hold it, and
  nothing is printed as JSON.
\<close>

theorem web_server_json_counterexample:
  "List.find (\<lambda>(server, pattern). search pattern ''Caddy'' \<noteq> None) WEB_SERVERS = None
   \<and> map_sum id (\<lambda>s'. (results s', output_json s', printed_json s'))
        (run_v2 (Returned \<lparr>body = [], headers = [(''Server'', ''Caddy'')]\<rparr>)
           (init ''http://example.com'' True True))
     = Inr ([(''Web Server'', Str ''Caddy'')], True, [])"
  by code_simp

text \<open>
  C9, amended. After a successful fetch the results of \<open>v2.py\<close> hold the key
  \<open>Web Server\<close>: the raw \<open>Server\<close> header (\<open>Unknown\<close> when the response has no such
  header), replaced by the name of the first table entry whose pattern matches it, if
  there is one. So \<open>Caddy\<close> is stored as it came, \<open>nginx/1.18.0\<close> is stored as
  \<open>nginx\<close>, and a response without the header gives \<open>Unknown\<close>. The detectors that
  follow leave the entry alone. When the body is not empty the scan of a fresh scanner
  ends with it, and under \<open>--json\<close> the final results are printed, the entry among
  them. When the body is empty the scan ends with it too, and nothing is printed as JSON.
\<close>

theorem web_server_entry_always_present:
  "map_of (results (snd (fetch_website (Returned resp) s))) ''Web Server'' =
     Some (Str (let raw = headers_get (headers resp) ''Server'' ''Unknown''
                in case List.find (\<lambda>(server, pattern). search pattern raw \<noteq> None) WEB_SERVERS of
                     None \<Rightarrow> raw
                   | Some (server, pattern) \<Rightarrow> server))
   \<and> (''server'' \<notin> set (map (\<lambda>kv. map to_lower (fst kv)) (headers resp)) \<longrightarrow>
        headers_get (headers resp) ''Server'' ''Unknown'' = ''Unknown'')
   \<and> results (snd (fetch_website (Returned \<lparr>body = b, headers = [(''server'', ''Caddy'')]\<rparr>)
                     (init u v j))) = [(''Web Server'', Str ''Caddy'')]
   \<and> results (snd (fetch_website (Returned \<lparr>body = b, headers = [(''Server'', ''nginx/1.18.0'')]\<rparr>)
                     (init u v j))) = [(''Web Server'', Str ''nginx'')]
   \<and> results (snd (fetch_website (Returned \<lparr>body = b, headers = [(''Content-Type'', ''text/html'')]\<rparr>)
                     (init u v j))) = [(''Web Server'', Str ''Unknown'')]
   \<and> (body resp \<noteq> [] \<longrightarrow>
        (\<exists>s'. run_v2 (Returned resp) (init u v j) = Inr s'
           \<and> map_of (results s') ''Web Server''
               = map_of (results (snd (fetch_website (Returned resp) s))) ''Web Server''
           \<and> printed_json s' = (if j then [results s'] else [])))
   \<and> (body resp = [] \<longrightarrow>
        (\<exists>s'. run_v2 (Returned resp) (init u v j) = Inr s'
           \<and> map_of (results s') ''Web Server''
               = map_of (results (snd (fetch_website (Returned resp) s))) ''Web Server''
           \<and> printed_json s' = []))"
proof -
  have ws: "map_of (results (snd (fetch_website (Returned resp) t))) ''Web Server'' =
     Some (Str (let raw = headers_get (headers resp) ''Server'' ''Unknown''
                in case List.find (\<lambda>(server, pattern). search pattern raw \<noteq> None) WEB_SERVERS of
                     None \<Rightarrow> raw
                   | Some (server, pattern) \<Rightarrow> server))" for t
    by (simp add: fetch_website_results update_conv' Let_def)
  have absent: "''server'' \<notin> set (map (\<lambda>kv. map to_lower (fst kv)) (headers resp)) \<longrightarrow>
        headers_get (headers resp) ''Server'' ''Unknown'' = ''Unknown''"
  proof
    assume "''server'' \<notin> set (map (\<lambda>kv. map to_lower (fst kv)) (headers resp))"
    moreover have "map to_lower ''Server'' = ''server''" by (simp add: to_lower_def)
    ultimately show "headers_get (headers resp) ''Server'' ''Unknown'' = ''Unknown''"
      by (intro headers_get_absent) simp
  qed
  have caddy_val: "(let raw = headers_get [(''server'', ''Caddy'')] ''Server'' ''Unknown''
      in AList.update ''Web Server''
           (Str (case List.find (\<lambda>(server, pattern). search pattern raw \<noteq> None) WEB_SERVERS of
                   None \<Rightarrow> raw
                 | Some (server, pattern) \<Rightarrow> server))
           []) = [(''Web Server'', Str ''Caddy'')]"
    by code_simp
  have nginx_val: "(let raw = headers_get [(''Server'', ''nginx/1.18.0'')] ''Server'' ''Unknown''
      in AList.update ''Web Server''
           (Str (case List.find (\<lambda>(server, pattern). search pattern raw \<noteq> None) WEB_SERVERS of
                   None \<Rightarrow> raw
                 | Some (server, pattern) \<Rightarrow> server))
           []) = [(''Web Server'', Str ''nginx'')]"
    by code_simp
  have unknown_val: "(let raw = headers_get [(''Content-Type'', ''text/html'')] ''Server'' ''Unknown''
      in AList.update ''Web Server''
           (Str (case List.find (\<lambda>(server, pattern). search pattern raw \<noteq> None) WEB_SERVERS of
                   None \<Rightarrow> raw
                 | Some (server, pattern) \<Rightarrow> server))
           []) = [(''Web Server'', Str ''Unknown'')]"
    by code_simp
  have caddy: "results (snd (fetch_website (Returned \<lparr>body = b, headers = [(''server'', ''Caddy'')]\<rparr>)
                     (init u v j))) = [(''Web Server'', Str ''Caddy'')]"
    unfolding fetch_website_results init_fields response.select_convs by (rule caddy_val)
  have nginx: "results (snd (fetch_website
                     (Returned \<lparr>body = b, headers = [(''Server'', ''nginx/1.18.0'')]\<rparr>)
                     (init u v j))) = [(''Web Server'', Str ''nginx'')]"
    unfolding fetch_website_results init_fields response.select_convs by (rule nginx_val)
  have unknown: "results (snd (fetch_website
                     (Returned \<lparr>body = b, headers = [(''Content-Type'', ''text/html'')]\<rparr>)
                     (init u v j))) = [(''Web Server'', Str ''Unknown'')]"
    unfolding fetch_website_results init_fields response.select_convs by (rule unknown_val)
  have scan: "\<exists>s'. run_v2 (Returned resp) (init u v j) = Inr s'
           \<and> map_of (results s') ''Web Server''
               = map_of (results (snd (fetch_website (Returned resp) s))) ''Web Server''
           \<and> printed_json s' = (if j then [results s'] else [])"
    if "body resp \<noteq> []"
  proof -
    from run_v2_Returned [OF that, of "init u v j"] obtain s' where
      "run_v2 (Returned resp) (init u v j) = Inr s'"
      "results s' = results (identify_backend_language_with_context (body resp) (headers resp)
                 (identify_technology_with_context (body resp)
                    (snd (fetch_website (Returned resp)
                            (info (''Starting scan for website: '' @ u) (banner (init u v j)))))))"
      "printed_json s' = (if j then [results s'] else [])"
      by auto
    then show ?thesis
      by (simp add: identify_backend_language_with_context_other_keys
            identify_technology_with_context_other_keys ws)
  qed
  have empty: "\<exists>s'. run_v2 (Returned resp) (init u v j) = Inr s'
           \<and> map_of (results s') ''Web Server''
               = map_of (results (snd (fetch_website (Returned resp) s))) ''Web Server''
           \<and> printed_json s' = []"
    if "body resp = []"
    using that by (simp add: run_v2_def Let_def split_beta fetch_website_Returned ws)
  from ws [of s] absent caddy nginx unknown scan empty show ?thesis by blast
qed

theorem web_server_entry_always_present_witness:
  "(''<html></html>'' \<noteq> []
    \<and> (\<exists>s'. run_v2 (Returned \<lparr>body = ''<html></html>'', headers = [(''Server'', ''Caddy'')]\<rparr>)
              (init ''http://example.com'' True True) = Inr s'
          \<and> map_of (results s') ''Web Server'' = Some (Str ''Caddy'')
          \<and> printed_json s' = [results s']))
   \<and> (''server'' \<notin> set (map (\<lambda>kv. map to_lower (fst kv)) [(''Content-Type'', ''text/html'')])
      \<and> headers_get [(''Content-Type'', ''text/html'')] ''Server'' ''Unknown'' = ''Unknown''
      \<and> map_of (results (snd (fetch_website
           (Returned \<lparr>body = ''<html></html>'', headers = [(''Content-Type'', ''text/html'')]\<rparr>)
           (init ''http://example.com'' True True)))) ''Web Server'' = Some (Str ''Unknown''))
   \<and> (\<exists>s'. run_v2 (Returned \<lparr>body = [], headers = [(''Server'', ''Apache/2.4.41 (Ubuntu)'')]\<rparr>)
              (init ''http://example.com'' True True) = Inr s'
          \<and> map_of (results s') ''Web Server'' = Some (Str ''Apache'')
          \<and> printed_json s' = [])"
proof -
  let ?s = "init ''http://example.com'' True True"
  let ?caddy = "\<lparr>body = ''<html></html>'', headers = [(''Server'', ''Caddy'')]\<rparr>"
  let ?plain = "\<lparr>body = ''<html></html>'', headers = [(''Content-Type'', ''text/html'')]\<rparr>"
  let ?apache = "\<lparr>body = [], headers = [(''Server'', ''Apache/2.4.41 (Ubuntu)'')]\<rparr>"
  have caddy_val: "(let raw = headers_get (headers ?caddy) ''Server'' ''Unknown''
                in case List.find (\<lambda>(server, pattern). search pattern raw \<noteq> None) WEB_SERVERS of
                     None \<Rightarrow> raw
                   | Some (server, pattern) \<Rightarrow> server) = ''Caddy''"
    by code_simp
  have plain_val: "(let raw = headers_get (headers ?plain) ''Server'' ''Unknown''
                in case List.find (\<lambda>(server, pattern). search pattern raw \<noteq> None) WEB_SERVERS of
                     None \<Rightarrow> raw
                   | Some (server, pattern) \<Rightarrow> server) = ''Unknown''"
    by code_simp
  have apache_val: "(let raw = headers_get (headers ?apache) ''Server'' ''Unknown''
                in case List.find (\<lambda>(server, pattern). search pattern raw \<noteq> None) WEB_SERVERS of
                     None \<Rightarrow> raw
                   | Some (server, pattern) \<Rightarrow> server) = ''Apache''"
    by code_simp
  have absent: "''server'' \<notin> set (map (\<lambda>kv. map to_lower (fst kv)) [(''Content-Type'', ''text/html'')])"
    by code_simp
  note t1 = web_server_entry_always_present
             [of ?caddy ?s "[]" "''http://example.com''" True True, unfolded caddy_val]
  note t2 = web_server_entry_always_present
             [of ?plain ?s "[]" "''http://example.com''" True True, unfolded plain_val]
  note t3 = web_server_entry_always_present
             [of ?apache ?s "[]" "''http://example.com''" True True, unfolded apache_val]
  have a: "''<html></html>'' \<noteq> []
    \<and> (\<exists>s'. run_v2 (Returned ?caddy) ?s = Inr s'
          \<and> map_of (results s') ''Web Server'' = Some (Str ''Caddy'')
          \<and> printed_json s' = [results s'])"
    using t1 by auto
  have b: "''server'' \<notin> set (map (\<lambda>kv. map to_lower (fst kv)) [(''Content-Type'', ''text/html'')])
      \<and> headers_get [(''Content-Type'', ''text/html'')] ''Server'' ''Unknown'' = ''Unknown''
      \<and> map_of (results (snd (fetch_website (Returned ?plain) ?s))) ''Web Server''
          = Some (Str ''Unknown'')"
    using t2 absent by auto
  have c: "\<exists>s'. run_v2 (Returned ?apache) ?s = Inr s'
          \<and> map_of (results s') ''Web Server'' = Some (Str ''Apache'')
          \<and> printed_json s' = []"
    using t3 by auto
  from a b c show ?thesis by blast
qed

end
